theory Spec2Isabelle
  imports Main "HOL-Library.Sublist"
begin

section \<open>Python values, exceptions and the outside world\<close>

text \<open>
  The client (\<^verbatim>\<open>GCPCVS\<close> in \<^verbatim>\<open>src/GCPCVS.py\<close>, \<^verbatim>\<open>gcpcvs\<close> in
  \<^verbatim>\<open>src/gcpcvs/gcpcvs.py\<close>) handles the service's answers as the Python values
  that \<^verbatim>\<open>r.json()\<close> returns. Strings are lists of characters with code points below
  256; JSON numbers are integers (a float behaves as an integer does in every operation
  used here: it is neither a string nor a container).

  A method of the client is a function from the world before the call to its outcome,
  an exception or a value, and the world after it. The calls of \<^verbatim>\<open>logging\<close> are left
  out: they send nothing, and the values that they format are read by the statements
  next to them as well.
\<close>

datatype json =
    JNull
  | JBool bool
  | JInt int
  | JStr string
  | JList "json list"
  | JObj "(string \<times> json) list"

text \<open>
  The exceptions that the modelled code can raise. \<open>Exhausted\<close> and \<open>Unmodelled\<close> are
  not Python exceptions: the first cuts a run when the scripted service has no further
  reply, the second marks an input outside the fragment of \<^verbatim>\<open>re\<close> and \<^verbatim>\<open>str()\<close>
  that is modelled.
\<close>

datatype error =
    KeyError
  | IndexError
  | TypeError
  | ValueError
  | AttributeError string
  | UnboundLocalError
  | JSONDecodeError
  | RequestException
  | HTTPError nat
  | RuntimeError json
  | TimeoutError
  | Exhausted
  | Unmodelled

text \<open>\<^verbatim>\<open>x[k]\<close> for a string key \<open>k\<close>.\<close>

fun getitem :: "json \<Rightarrow> string \<Rightarrow> error + json" where
  "getitem (JObj kvs) k = (case map_of kvs k of None \<Rightarrow> Inl KeyError | Some v \<Rightarrow> Inr v)"
| "getitem _ k = Inl TypeError"

text \<open>\<^verbatim>\<open>x[0]\<close>: the first element of a list or string; on a dict, whose keys are
  strings, the key \<open>0\<close> is missing.\<close>

fun getitem0 :: "json \<Rightarrow> error + json" where
  "getitem0 (JList []) = Inl IndexError"
| "getitem0 (JList (x # xs)) = Inr x"
| "getitem0 (JStr []) = Inl IndexError"
| "getitem0 (JStr (c # cs)) = Inr (JStr [c])"
| "getitem0 (JObj kvs) = Inl KeyError"
| "getitem0 _ = Inl TypeError"

text \<open>\<^verbatim>\<open>k in x\<close> for a string \<open>k\<close>: key of a dict, element of a list, substring of a
  string.\<close>

fun contains :: "string \<Rightarrow> json \<Rightarrow> error + bool" where
  "contains k (JObj kvs) = Inr (k \<in> set (map fst kvs))"
| "contains k (JList xs) = Inr (JStr k \<in> set xs)"
| "contains k (JStr s) = Inr (sublist k s)"
| "contains k _ = Inl TypeError"

text \<open>\<^verbatim>\<open>len(x)\<close> and the elements that iterating over \<open>x\<close> yields.\<close>

fun len :: "json \<Rightarrow> error + nat" where
  "len (JList xs) = Inr (length xs)"
| "len (JObj kvs) = Inr (length (remdups (map fst kvs)))"
| "len (JStr s) = Inr (length s)"
| "len _ = Inl TypeError"

fun iter :: "json \<Rightarrow> error + json list" where
  "iter (JList xs) = Inr xs"
| "iter (JObj kvs) = Inr (map JStr (remdups (map fst kvs)))"
| "iter (JStr s) = Inr (map (\<lambda>c. JStr [c]) s)"
| "iter _ = Inl TypeError"


definition strip_chars :: "char \<Rightarrow> string \<Rightarrow> string" where
  "strip_chars c s = rev (dropWhile (\<lambda>x. x = c) (rev (dropWhile (\<lambda>x. x = c) s)))"

fun strip :: "json \<Rightarrow> char \<Rightarrow> error + string" where
  "strip (JStr s) c = Inr (strip_chars c s)"
| "strip _ c = Inl (AttributeError ''strip'')"

text \<open>
  An f-string is kept as the sequence of its literal parts and interpolated values, so
  that no rendering of a non-string value is needed in a URL.
\<close>

datatype piece = Text string | Value json

datatype verb = GET | POST | DELETE

record request =
  verb :: verb
  url :: "piece list"
  payload :: "json option"

text \<open>
  A response of the service: its status code, its body as \<^verbatim>\<open>r.json()\<close> parses it
  (\<open>None\<close> when it is not JSON) and the time in microseconds that the exchange took.
\<close>

record response =
  status_code :: nat
  body :: "json option"
  took :: nat

datatype reply = Reply response | Refused

datatype event = Sent request | Slept nat

text \<open>
  The world outside the client: \<open>script\<close> holds the replies that the service will give
  to the next requests, in order (\<open>Refused\<close>: \<^verbatim>\<open>requests\<close> raises instead of
  returning a response); \<open>draws\<close> the next outcomes of the random generator; \<open>clock\<close>
  the time in microseconds that \<^verbatim>\<open>datetime.now()\<close> and \<^verbatim>\<open>time()\<close> read; \<open>trace\<close> the
  requests sent and the sleeps taken so far, oldest first. A finite script bounds every
  run: the loops of the client end at the latest when it is used up, with \<open>Exhausted\<close>.
\<close>

record world =
  script :: "reply list"
  draws :: "nat list"
  clock :: int
  trace :: "event list"

type_synonym 'a prog = "world \<Rightarrow> (error + 'a) \<times> world"

definition ret :: "'a \<Rightarrow> 'a prog" where
  "ret x w = (Inr x, w)"

definition raise :: "error \<Rightarrow> 'a prog" where
  "raise e w = (Inl e, w)"

definition lift :: "error + 'a \<Rightarrow> 'a prog" where
  "lift r w = (r, w)"

definition pbind :: "'a prog \<Rightarrow> ('a \<Rightarrow> 'b prog) \<Rightarrow> 'b prog" where
  "pbind m f w = (case m w of (Inl e, w') \<Rightarrow> (Inl e, w') | (Inr x, w') \<Rightarrow> f x w')"

definition send :: "request \<Rightarrow> response prog" where
  "send rq w =
     (case script w of
        [] \<Rightarrow> (Inl Exhausted, w)
      | Refused # rest \<Rightarrow>
          (Inl RequestException, w\<lparr>script := rest, trace := trace w @ [Sent rq]\<rparr>)
      | Reply r # rest \<Rightarrow>
          (Inr r, w\<lparr>script := rest, clock := clock w + int (took r),
                     trace := trace w @ [Sent rq]\<rparr>))"

text \<open>The world after the request \<open>rq\<close> was sent and answered by \<open>r\<close>.\<close>

definition received :: "request \<Rightarrow> response \<Rightarrow> reply list \<Rightarrow> world \<Rightarrow> world" where
  "received rq r rest w =
     w\<lparr>script := rest, clock := clock w + int (took r), trace := trace w @ [Sent rq]\<rparr>"

definition sleep :: "nat \<Rightarrow> world \<Rightarrow> world" where
  "sleep n w = w\<lparr>clock := clock w + int n * 1000000, trace := trace w @ [Slept n]\<rparr>"

text \<open>\<^verbatim>\<open>random.randrange(50,70)\<close>: a number from 50 to 69.\<close>

definition randrange_50_70 :: "world \<Rightarrow> nat \<times> world" where
  "randrange_50_70 w =
     (case draws w of [] \<Rightarrow> (50, w) | d # ds \<Rightarrow> (50 + d mod 20, w\<lparr>draws := ds\<rparr>))"

text \<open>\<^verbatim>\<open>r.raise_for_status()\<close> of \<^verbatim>\<open>requests\<close>: an \<^verbatim>\<open>HTTPError\<close> for the client and
  server error codes 400 to 599.\<close>

definition raise_for_status :: "response \<Rightarrow> error + response" where
  "raise_for_status r =
     (if 400 \<le> status_code r \<and> status_code r < 600 then Inl (HTTPError (status_code r))
      else Inr r)"

text \<open>\<^verbatim>\<open>r.json()\<close>.\<close>

definition json_of :: "response \<Rightarrow> error + json" where
  "json_of r = (case body r of None \<Rightarrow> Inl JSONDecodeError | Some j \<Rightarrow> Inr j)"

text \<open>The requests that a trace contains, those among them that delete, and the sleeps.\<close>

fun requests_of :: "event list \<Rightarrow> request list" where
  "requests_of [] = []"
| "requests_of (Sent rq # es) = rq # requests_of es"
| "requests_of (Slept n # es) = requests_of es"

definition deletes_of :: "event list \<Rightarrow> request list" where
  "deletes_of es = filter (\<lambda>rq. verb rq = DELETE) (requests_of es)"

fun sleeps_of :: "event list \<Rightarrow> nat list" where
  "sleeps_of [] = []"
| "sleeps_of (Sent rq # es) = sleeps_of es"
| "sleeps_of (Slept n # es) = n # sleeps_of es"

text \<open>A program is quiet when no run of it sends a DELETE request.\<close>

definition quiet :: "'a prog \<Rightarrow> bool" where
  "quiet m = (\<forall>w r w'. m w = (r, w') \<longrightarrow> deletes_of (trace w') = deletes_of (trace w))"

section \<open>The request helpers\<close>

text \<open>
  The two client classes. \<open>GCPCVS\<close> is the class of \<^verbatim>\<open>src/GCPCVS.py\<close>, \<open>gcpcvs\<close> the
  class of \<^verbatim>\<open>src/gcpcvs/gcpcvs.py\<close>. An instance \<^verbatim>\<open>self\<close> carries its class and
  the \<^verbatim>\<open>baseurl\<close> that \<^verbatim>\<open>__init__\<close> stored.
\<close>

datatype client_class = GCPCVS | gcpcvs

record client =
  klass :: client_class
  baseurl :: string

text \<open>\<^verbatim>\<open>f"{self.baseurl}/locations/{region}..."\<close>, the common start of the URLs.\<close>

definition locations :: "client \<Rightarrow> string \<Rightarrow> piece list \<Rightarrow> piece list" where
  "locations self region rest =
     [Value (JStr (baseurl self)), Text ''/locations/'', Value (JStr region)] @ rest"

text \<open>\<^verbatim>\<open>_do_api_get\<close> (both classes): one GET, then \<^verbatim>\<open>raise_for_status\<close>.\<close>

definition do_api_get :: "piece list \<Rightarrow> response prog" where
  "do_api_get u =
     pbind (send \<lparr>verb = GET, url = u, payload = None\<rparr>) (\<lambda>r. lift (raise_for_status r))"

text \<open>
  Lines 125 to 135 of \<^verbatim>\<open>_do_api_post\<close> (173 to 188 of \<^verbatim>\<open>_do_api_delete\<close>): for a
  status 500 the message of the body decides whether the loop goes on to its sleep
  (\<open>True\<close>) or is left (\<open>False\<close>); for 429 and 409 it goes on.
\<close>

definition job_slot_retry :: "response \<Rightarrow> json \<Rightarrow> error + bool" where
  "job_slot_retry r reason =
     (if status_code r = 500 then
        (case contains ''message'' reason of
           Inl e \<Rightarrow> Inl e
         | Inr has \<Rightarrow>
            (case (if has then getitem reason ''message'' else Inr (JStr ''error'')) of
               Inl e \<Rightarrow> Inl e
             | Inr msg \<Rightarrow> contains ''Cannot spawn additional jobs'' msg))
      else Inr True)"

text \<open>
  The \<^verbatim>\<open>while True\<close> loop of \<^verbatim>\<open>_do_api_post\<close> and of \<^verbatim>\<open>_do_api_delete\<close> of class
  \<open>gcpcvs\<close>: the two bodies differ in the request only. The loop yields the last
  response \<open>r\<close>.
\<close>

function request_loop :: "request \<Rightarrow> int \<Rightarrow> int \<Rightarrow> response prog" where
  "request_loop rq timeout_seconds target_time w =
     (case send rq w of
        (Inl e, w1) \<Rightarrow> (Inl e, w1)
      | (Inr r, w1) \<Rightarrow>
         (case json_of r of
            Inl e \<Rightarrow> (Inl e, w1)
          | Inr reason \<Rightarrow>
             if timeout_seconds = 0 then (Inr r, w1)
             else if status_code r \<in> {200, 202} then (Inr r, w1)
             else if status_code r \<in> {429, 409, 500} then
               (case job_slot_retry r reason of
                  Inl e \<Rightarrow> (Inl e, w1)
                | Inr again \<Rightarrow>
                   if \<not> again then (Inr r, w1)
                   else
                     (case randrange_50_70 w1 of
                        (d, w2) \<Rightarrow>
                          if clock (sleep d w2) \<ge> target_time then (Inr r, sleep d w2)
                          else request_loop rq timeout_seconds target_time (sleep d w2)))
             else (Inr r, w1)))"
  by pat_completeness auto

lemma send_script:
  "send rq w = (Inr r, w1) \<Longrightarrow> length (script w1) < length (script w)"
  by (auto simp: send_def split: list.splits reply.splits)

lemma sleep_script [simp]: "script (sleep n w) = script w"
  by (simp add: sleep_def)

lemma randrange_script:
  "randrange_50_70 w = (d, w2) \<Longrightarrow> script w2 = script w"
  by (auto simp: randrange_50_70_def split: list.splits)

termination request_loop
  by (relation "measure (\<lambda>(rq, t, tt, w). length (script w))")
     (auto dest!: send_script [OF sym] randrange_script [OF sym])

declare request_loop.simps [simp del]

definition do_api_post :: "piece list \<Rightarrow> json \<Rightarrow> int \<Rightarrow> response prog" where
  "do_api_post u pl timeout_seconds w =
     pbind (request_loop \<lparr>verb = POST, url = u, payload = Some pl\<rparr> timeout_seconds
              (clock w + timeout_seconds * 1000000))
       (\<lambda>r. lift (raise_for_status r)) w"

definition do_api_delete :: "piece list \<Rightarrow> int \<Rightarrow> response prog" where
  "do_api_delete u timeout_seconds w =
     pbind (request_loop \<lparr>verb = DELETE, url = u, payload = None\<rparr> timeout_seconds
              (clock w + timeout_seconds * 1000000))
       (\<lambda>r. lift (raise_for_status r)) w"

section \<open>Backups\<close>

definition getBackupsByVolumeID :: "client \<Rightarrow> string \<Rightarrow> string \<Rightarrow> json prog" where
  "getBackupsByVolumeID self region volumeID =
     pbind (do_api_get (locations self region
              [Text ''/Volumes/'', Value (JStr volumeID), Text ''/Backups'']))
       (\<lambda>r. lift (json_of r))"

definition getVolumesByVolumeID :: "client \<Rightarrow> string \<Rightarrow> string \<Rightarrow> json prog" where
  "getVolumesByVolumeID self region volumeID =
     pbind (do_api_get (locations self region [Text ''/Volumes/'', Value (JStr volumeID)]))
       (\<lambda>r. lift (json_of r))"

text \<open>
  The \<^verbatim>\<open>while True\<close> loop of \<^verbatim>\<open>createBackup\<close> (both classes): sleep five seconds,
  read the backup, leave when its \<^verbatim>\<open>lifeCycleState\<close> is \<^verbatim>\<open>"available"\<close>.
\<close>

function backup_wait :: "piece list \<Rightarrow> unit prog" where
  "backup_wait u w =
     (case do_api_get u (sleep 5 w) of
        (Inl e, w1) \<Rightarrow> (Inl e, w1)
      | (Inr r, w1) \<Rightarrow>
         (case json_of r of
            Inl e \<Rightarrow> (Inl e, w1)
          | Inr j \<Rightarrow>
             (case getitem j ''lifeCycleState'' of
                Inl e \<Rightarrow> (Inl e, w1)
              | Inr status \<Rightarrow>
                 if status = JStr ''available'' then (Inr (), w1) else backup_wait u w1)))"
  by pat_completeness auto

lemma do_api_get_script:
  "do_api_get u w = (Inr r, w1) \<Longrightarrow> length (script w1) < length (script w)"
  by (auto simp: do_api_get_def pbind_def lift_def split: prod.splits sum.splits
           dest: send_script)

termination backup_wait
  by (relation "measure (\<lambda>(u, w). length (script w))")
     (auto dest!: do_api_get_script [OF sym])

declare backup_wait.simps [simp del]

text \<open>
  \<^verbatim>\<open>createBackup\<close>. Class \<open>GCPCVS\<close> posts with \<^verbatim>\<open>requests.post\<close>, class \<open>gcpcvs\<close>
  through \<^verbatim>\<open>_do_api_post\<close> with a window of ten minutes; the rest is the same.
\<close>

definition createBackup :: "client \<Rightarrow> string \<Rightarrow> string \<Rightarrow> string \<Rightarrow> bool prog" where
  "createBackup self region volumeID name =
     (let u = locations self region [Text ''/Backups''];
          b = JObj [(''name'', JStr name), (''volumeId'', JStr volumeID)]
      in pbind (case klass self of
                  GCPCVS \<Rightarrow> send \<lparr>verb = POST, url = u, payload = Some b\<rparr>
                | gcpcvs \<Rightarrow> do_api_post u b (10 * 60))
           (\<lambda>r. if status_code r = 201 \<or> status_code r = 202 then
                  pbind (lift (json_of r)) (\<lambda>j.
                  pbind (lift (getitem j ''response'')) (\<lambda>j1.
                  pbind (lift (getitem j1 ''AnyValue'')) (\<lambda>j2.
                  pbind (lift (getitem j2 ''backupId'')) (\<lambda>backupID.
                  pbind (backup_wait (locations self region
                           [Text ''/Backups/'', Value backupID])) (\<lambda>_.
                  ret True)))))
                else ret False))"

text \<open>
  \<^verbatim>\<open>deleteBackupByBackupID\<close>. Class \<open>GCPCVS\<close> repeats the request while the status is
  429, class \<open>gcpcvs\<close> deletes through \<^verbatim>\<open>_do_api_delete\<close>.
\<close>

function delete_429_loop :: "request \<Rightarrow> response prog" where
  "delete_429_loop rq w =
     (case send rq w of
        (Inl e, w1) \<Rightarrow> (Inl e, w1)
      | (Inr r, w1) \<Rightarrow>
         if status_code r \<noteq> 429 then (Inr r, w1) else delete_429_loop rq (sleep 5 w1))"
  by pat_completeness auto

termination delete_429_loop
  by (relation "measure (\<lambda>(rq, w). length (script w))")
     (auto dest!: send_script [OF sym])

declare delete_429_loop.simps [simp del]

definition deleteBackupByBackupID :: "client \<Rightarrow> string \<Rightarrow> json \<Rightarrow> bool prog" where
  "deleteBackupByBackupID self region backupID =
     (let u = locations self region [Text ''/Backups/'', Value backupID]
      in pbind (case klass self of
                  GCPCVS \<Rightarrow> delete_429_loop \<lparr>verb = DELETE, url = u, payload = None\<rparr>
                | gcpcvs \<Rightarrow> do_api_delete u (10 * 60))
           (\<lambda>r. ret (status_code r = 200 \<or> status_code r = 202)))"

subsection \<open>Attribute lookup\<close>

text \<open>
  The names that the body of each class binds: its data attributes and its methods, in
  the order of the source. The only base class is \<^verbatim>\<open>object\<close>, whose attributes all
  have names of the form \<^verbatim>\<open>__x__\<close>; \<^verbatim>\<open>__init__\<close> assigns to names of this list only.
\<close>

definition namespace :: "client_class \<Rightarrow> string list" where
  "namespace c =
     (case c of
        GCPCVS \<Rightarrow>
          [''project'', ''projectId'', ''service_account'', ''token'', ''baseurl'', ''headers'',
           ''__init__'', ''__str__'', ''getProjectNumber'', ''getProjectID'', ''_log_response'',
           ''_do_api_get'', ''getVolumesByRegion'', ''getVolumesByName'',
           ''getVolumesByVolumeID'', ''_modifyVolumeByVolumeID'', ''resizeVolumeByVolumeID'',
           ''setServiceLevelByVolumeID'', ''createVolume'', ''deleteVolumeByVolumeID'',
           ''translateServiceLevelAPI2UI'', ''translateServiceLevelUI2API'',
           ''getSnapshotsByRegion'', ''deleteSnapshotBySnapshotID'',
           ''getVolumeReplicationByRegion'', ''getBackups'', ''getBackupsByVolumeID'',
           ''createBackup'', ''rotateBackup'', ''deleteBackupByBackupID'', ''deleteBackupByName'',
           ''deleteAllBackupsByVolumeID'', ''getKMSConfigurationByRegion'',
           ''getKMSConfigurationByID'', ''deleteKMSConfigurationByID'',
           ''getActiveDirectoryConfigurationByRegion'', ''getActiveDirectoryConfigurationByID'']
      | gcpcvs \<Rightarrow>
          [''project'', ''projectId'', ''service_account'', ''token'', ''baseurl'', ''headers'',
           ''__init__'', ''__str__'', ''getProjectNumber'', ''getProjectID'', ''_log_response'',
           ''_do_api_get'', ''_API_getAll'', ''_do_api_post'', ''_do_api_delete'', ''is_type_cvs'',
           ''is_type_cvs_performance'', ''getVersionByRegion'', ''getPoolsByRegion'',
           ''getPoolsByName'', ''getPoolsByPoolID'', ''createPool'', ''_modifyPoolByPoolID'',
           ''resizePoolByPoolID'', ''deletePoolByPoolID'', ''getVolumesByRegion'',
           ''getVolumesByName'', ''getVolumesByVolumeID'', ''_modifyVolumeByVolumeID'',
           ''resizeVolumeByVolumeID'', ''setServiceLevelByVolumeID'', ''createVolume'',
           ''deleteVolumeByVolumeID'', ''translateServiceLevelAPI2UI'',
           ''translateServiceLevelUI2API'', ''getSnapshotsByRegion'',
           ''deleteSnapshotBySnapshotID'', ''getVolumeReplicationByRegion'',
           ''getVolumeReplicationByID'', ''getVolumeReplicationByName'',
           ''createVolumeReplication'', ''breakVolumeReplicationByID'',
           ''resyncVolumeReplicationByID'', ''createReverseVolumeReplicationByID'',
           ''deleteVolumeReplicationByID'', ''getBackups'', ''getBackupsByVolumeID'',
           ''createBackup'', ''rotateBackup'', ''deleteBackupByBackupID'', ''deleteBackupByName'',
           ''deleteAllBackupsByVolumeID'', ''getKMSConfigurationByRegion'',
           ''getKMSConfigurationByID'', ''deleteKMSConfigurationByID'',
           ''getActiveDirectoryConfigurationByRegion'', ''getActiveDirectoryConfigurationByID''])"

text \<open>\<^verbatim>\<open>self.name\<close>: the attribute of that name, or \<^verbatim>\<open>AttributeError\<close>.\<close>

definition getattr :: "client \<Rightarrow> string \<Rightarrow> error + string" where
  "getattr self name =
     (if name \<in> set (namespace (klass self)) then Inr name else Inl (AttributeError name))"

text \<open>
  The call of a bound method with the arguments \<^verbatim>\<open>(region, backupID)\<close>. Of the methods
  of the classes, the one that deletes a backup is modelled.
\<close>

definition call_method :: "client \<Rightarrow> string \<Rightarrow> string \<Rightarrow> json \<Rightarrow> bool prog" where
  "call_method self name region backupID =
     (if name = ''deleteBackupByBackupID'' then deleteBackupByBackupID self region backupID
      else raise Unmodelled)"

subsection \<open>The name pattern\<close>

text \<open>
  \<^verbatim>\<open>re.compile\<close> and \<^verbatim>\<open>p.match\<close> for the patterns that consist of ordinary characters,
  of \<^verbatim>\<open>.\<close> (any character but a newline) and of \<^verbatim>\<open>\d\<close> (a decimal digit). The name
  of the volume is pasted into the pattern as it is, so it is compiled with the rest; a
  pattern with another special character of \<^verbatim>\<open>re\<close> is outside this fragment. Among
  the characters of the model, the code points below 256, the decimal digits that
  \<^verbatim>\<open>\d\<close> matches are \<open>0\<close> to \<open>9\<close>.
\<close>

datatype atom = Lit char | Dot | Digit

definition backslash :: char where
  "backslash = CHR 0x5C"

definition special :: "char list" where
  "special = [CHR ''.'', CHR ''^'', CHR ''$'', CHR ''*'', CHR ''+'', CHR ''?'', CHR ''{'', CHR ''}'',
              CHR ''['', CHR '']'', backslash, CHR ''|'', CHR ''('', CHR '')'']"

fun compile :: "string \<Rightarrow> atom list option" where
  "compile [] = Some []"
| "compile [c] =
     (if c = CHR ''.'' then Some [Dot]
      else if c \<in> set special then None
      else Some [Lit c])"
| "compile (c # d # cs) =
     (if c = backslash then
        (if d = CHR ''d'' then map_option (Cons Digit) (compile cs) else None)
      else if c = CHR ''.'' then map_option (Cons Dot) (compile (d # cs))
      else if c \<in> set special then None
      else map_option (Cons (Lit c)) (compile (d # cs)))"

fun atom_ok :: "atom \<Rightarrow> char \<Rightarrow> bool" where
  "atom_ok (Lit c) x = (x = c)"
| "atom_ok Dot x = (x \<noteq> CHR 0x0A)"
| "atom_ok Digit x = (x \<in> set ''0123456789'')"

text \<open>\<^verbatim>\<open>p.match(s)\<close>: the pattern matches at the start of \<open>s\<close>; \<open>s\<close> may go on.\<close>

fun re_match :: "atom list \<Rightarrow> string \<Rightarrow> bool" where
  "re_match [] s = True"
| "re_match (a # as) [] = False"
| "re_match (a # as) (x # xs) = (atom_ok a x \<and> re_match as xs)"

text \<open>\<^verbatim>\<open>f"{volumename}-......-\d\d\d\d-\d\d-\d\dT\d\d:\d\d"\<close>.\<close>

definition pattern_text :: "string \<Rightarrow> string" where
  "pattern_text volumename =
     volumename @ ''-......-''
       @ [backslash, CHR ''d'', backslash, CHR ''d'', backslash, CHR ''d'', backslash, CHR ''d'']
       @ ''-'' @ [backslash, CHR ''d'', backslash, CHR ''d'']
       @ ''-'' @ [backslash, CHR ''d'', backslash, CHR ''d'']
       @ ''T'' @ [backslash, CHR ''d'', backslash, CHR ''d'']
       @ '':'' @ [backslash, CHR ''d'', backslash, CHR ''d'']"

definition compile_pattern :: "string \<Rightarrow> error + atom list" where
  "compile_pattern volumename =
     (case compile (pattern_text volumename) of None \<Rightarrow> Inl Unmodelled | Some p \<Rightarrow> Inr p)"

text \<open>
  \<^verbatim>\<open>[backup for backup in ... if p.match(backup["name"])]\<close>: the first element whose
  name cannot be read or is not a string raises.
\<close>

fun select_matching :: "atom list \<Rightarrow> json list \<Rightarrow> error + json list" where
  "select_matching p [] = Inr []"
| "select_matching p (b # bs) =
     (case getitem b ''name'' of
        Inl e \<Rightarrow> Inl e
      | Inr n \<Rightarrow>
         (case n of
            JStr s \<Rightarrow>
              (case select_matching p bs of
                 Inl e \<Rightarrow> Inl e
               | Inr rest \<Rightarrow> Inr (if re_match p s then b # rest else rest))
          | _ \<Rightarrow> Inl TypeError))"

subsection \<open>Sorting by creation time\<close>

text \<open>
  The two functions of \<^verbatim>\<open>datetime\<close> that the rotation uses are parameters of the
  model. \<open>fromisoformat s\<close> is \<open>None\<close> when \<^verbatim>\<open>datetime.fromisoformat(s)\<close> raises
  \<^verbatim>\<open>ValueError\<close>, and else tells whether the result carries a UTC offset and where it
  lies on the time line, in microseconds; \<open>isoformat_minutes t\<close> is the text of
  \<^verbatim>\<open>datetime.now().isoformat(timespec='minutes')\<close> when the clock reads \<open>t\<close>.
\<close>

record datetime_lib =
  fromisoformat :: "string \<Rightarrow> (bool \<times> int) option"
  isoformat_minutes :: "int \<Rightarrow> string"

text \<open>The sort key \<^verbatim>\<open>datetime.fromisoformat(b['created'].strip("Z"))\<close>.\<close>

definition created_key :: "datetime_lib \<Rightarrow> json \<Rightarrow> error + (bool \<times> int)" where
  "created_key dt b =
     (case getitem b ''created'' of
        Inl e \<Rightarrow> Inl e
      | Inr c \<Rightarrow>
         (case strip c (CHR ''Z'') of
            Inl e \<Rightarrow> Inl e
          | Inr s \<Rightarrow>
             (case fromisoformat dt s of None \<Rightarrow> Inl ValueError | Some k \<Rightarrow> Inr k)))"

fun created_keys :: "datetime_lib \<Rightarrow> json list \<Rightarrow> error + (bool \<times> int) list" where
  "created_keys dt [] = Inr []"
| "created_keys dt (b # bs) =
     (case created_key dt b of
        Inl e \<Rightarrow> Inl e
      | Inr k \<Rightarrow> (case created_keys dt bs of Inl e \<Rightarrow> Inl e | Inr ks \<Rightarrow> Inr (k # ks)))"

text \<open>
  \<^verbatim>\<open>sorted(backups, key=..., reverse=True)\<close>: the keys are computed first, in the order
  of the list; a datetime with an offset cannot be compared with one without; the sort
  is stable, and with \<^verbatim>\<open>reverse=True\<close> it is the stable ascending sort of the reversed
  list, reversed.
\<close>

definition sorted_reverse :: "datetime_lib \<Rightarrow> json list \<Rightarrow> error + json list" where
  "sorted_reverse dt backups =
     (case created_keys dt backups of
        Inl e \<Rightarrow> Inl e
      | Inr ks \<Rightarrow>
         if (\<exists>k \<in> set ks. fst k) \<and> (\<exists>k \<in> set ks. \<not> fst k) then Inl TypeError
         else Inr (map snd (rev (sort_key fst (rev (zip (map snd ks) backups))))))"

subsection \<open>The rotation\<close>

text \<open>
  \<^verbatim>\<open>rotateBackup\<close> is the same text in both classes. It is given here in the order of
  the source: the part before \<^verbatim>\<open>createBackup\<close> is called (\<open>rotate_prepare\<close>, which
  yields \<open>None\<close> where the source returns \<^verbatim>\<open>False\<close>, and else the name of the volume
  and the name of the new backup), the part that lists and sorts the backups
  (\<open>rotate_select\<close>, which yields \<^verbatim>\<open>sortedbackups\<close>), and the last loop (\<open>prune_loop\<close>).
\<close>

definition str_of :: "json \<Rightarrow> error + string" where
  "str_of v = (case v of JStr s \<Rightarrow> Inr s | _ \<Rightarrow> Inl Unmodelled)"

definition now :: "int prog" where
  "now w = (Inr (clock w), w)"

definition rotate_prepare ::
  "datetime_lib \<Rightarrow> client \<Rightarrow> string \<Rightarrow> string \<Rightarrow> int \<Rightarrow> (string \<times> string) option prog" where
  "rotate_prepare dt self region volumeID count =
     (let max_backups = 32 in
      if \<not> (1 \<le> count \<and> count \<le> max_backups - 2) then ret None
      else
        pbind (getBackupsByVolumeID self region volumeID) (\<lambda>backups.
        pbind (lift (len backups)) (\<lambda>n.
        if int n = max_backups then ret None
        else
          pbind (getVolumesByVolumeID self region volumeID) (\<lambda>vols.
          pbind (lift (getitem0 vols)) (\<lambda>vol.
          pbind (lift (getitem vol ''name'')) (\<lambda>name.
          pbind (lift (str_of name)) (\<lambda>volumename.
          pbind now (\<lambda>t.
          ret (Some (volumename,
                 volumename @ ''-'' @ take 6 volumeID @ ''-'' @ isoformat_minutes dt t))))))))))"

definition rotate_select ::
  "datetime_lib \<Rightarrow> client \<Rightarrow> string \<Rightarrow> string \<Rightarrow> string \<Rightarrow> json list prog" where
  "rotate_select dt self region volumeID volumename =
     pbind (lift (compile_pattern volumename)) (\<lambda>p.
     pbind (getBackupsByVolumeID self region volumeID) (\<lambda>listing.
     pbind (lift (iter listing)) (\<lambda>items.
     pbind (lift (select_matching p items)) (\<lambda>backups.
     lift (sorted_reverse dt backups)))))"

text \<open>
  The loop \<^verbatim>\<open>while i < len(sortedbackups)\<close>. The call
  \<^verbatim>\<open>self.deleteBackupbyBackupID(region, backupToDelete["backupId"])\<close> looks the
  attribute up first, then evaluates the arguments, then calls.
\<close>

function prune_loop :: "client \<Rightarrow> string \<Rightarrow> json list \<Rightarrow> nat \<Rightarrow> unit prog" where
  "prune_loop self region sortedbackups i w =
     (if i < length sortedbackups then
        (let backupToDelete = sortedbackups ! i in
         case getattr self ''deleteBackupbyBackupID'' of
           Inl e \<Rightarrow> (Inl e, w)
         | Inr m \<Rightarrow>
            (case getitem backupToDelete ''backupId'' of
               Inl e \<Rightarrow> (Inl e, w)
             | Inr backupID \<Rightarrow>
                (case call_method self m region backupID w of
                   (Inl e, w1) \<Rightarrow> (Inl e, w1)
                 | (Inr _, w1) \<Rightarrow> prune_loop self region sortedbackups (i + 1) w1)))
      else (Inr (), w))"
  by pat_completeness auto

termination prune_loop
  by (relation "measure (\<lambda>(self, region, sb, i, w). length sb - i)") auto

declare prune_loop.simps [simp del]

definition rotateBackup ::
  "datetime_lib \<Rightarrow> client \<Rightarrow> string \<Rightarrow> string \<Rightarrow> int \<Rightarrow> bool prog" where
  "rotateBackup dt self region volumeID count =
     pbind (rotate_prepare dt self region volumeID count) (\<lambda>prepared.
     case prepared of
       None \<Rightarrow> ret False
     | Some (volumename, backupname) \<Rightarrow>
         pbind (createBackup self region volumeID backupname) (\<lambda>created.
         if \<not> created then ret False
         else
           pbind (rotate_select dt self region volumeID volumename) (\<lambda>sortedbackups.
           pbind (prune_loop self region sortedbackups (nat count)) (\<lambda>_.
           ret True))))"





subsection \<open>A datetime library\<close>

text \<open>
  One instance of the parameter, for running the rotation on concrete listings: the
  local time zone is UTC, and \<open>fromisoformat\<close> reads the timestamps
  \<^verbatim>\<open>YYYY-MM-DD?HH:MM:SS\<close>, with an optional fraction of three or six digits and without
  a UTC offset; it refuses every other string.
\<close>

definition digit_value :: "char \<Rightarrow> nat option" where
  "digit_value c =
     map_of [(CHR ''0'', 0), (CHR ''1'', 1), (CHR ''2'', 2), (CHR ''3'', 3), (CHR ''4'', 4),
             (CHR ''5'', 5), (CHR ''6'', 6), (CHR ''7'', 7), (CHR ''8'', 8), (CHR ''9'', 9)] c"

fun number :: "string \<Rightarrow> nat \<Rightarrow> nat option" where
  "number [] acc = Some acc"
| "number (c # cs) acc =
     (case digit_value c of None \<Rightarrow> None | Some d \<Rightarrow> number cs (10 * acc + d))"

definition days_in_month :: "nat \<Rightarrow> nat \<Rightarrow> nat" where
  "days_in_month y m =
     (if m = 2 then (if y mod 4 = 0 \<and> (y mod 100 \<noteq> 0 \<or> y mod 400 = 0) then 29 else 28)
      else if m \<in> {4, 6, 9, 11} then 30 else 31)"

text \<open>The number of days from 1970-01-01 to the given date.\<close>

definition days_from_civil :: "nat \<Rightarrow> nat \<Rightarrow> nat \<Rightarrow> int" where
  "days_from_civil y m d =
     (let y1 = int y - (if m \<le> 2 then 1 else 0);
          era = y1 div 400;
          yoe = y1 - era * 400;
          doy = (153 * (int m + (if m > 2 then - 3 else 9)) + 2) div 5 + int d - 1;
          doe = yoe * 365 + yoe div 4 - yoe div 100 + doy
      in era * 146097 + doe - 719468)"

definition utc_fromisoformat :: "string \<Rightarrow> (bool \<times> int) option" where
  "utc_fromisoformat s =
     (if length s \<notin> {19, 23, 26} \<or> s ! 4 \<noteq> CHR ''-'' \<or> s ! 7 \<noteq> CHR ''-''
         \<or> s ! 13 \<noteq> CHR '':'' \<or> s ! 16 \<noteq> CHR '':'' \<or> (length s > 19 \<and> s ! 19 \<noteq> CHR ''.'')
      then None
      else
        (case (number (take 4 s) 0, number (take 2 (drop 5 s)) 0, number (take 2 (drop 8 s)) 0,
               number (take 2 (drop 11 s)) 0, number (take 2 (drop 14 s)) 0,
               number (take 2 (drop 17 s)) 0, number (drop 20 s) 0) of
           (Some y, Some m, Some d, Some hh, Some mm, Some ss, Some f) \<Rightarrow>
             if 1 \<le> y \<and> 1 \<le> m \<and> m \<le> 12 \<and> 1 \<le> d \<and> d \<le> days_in_month y m
                \<and> hh < 24 \<and> mm < 60 \<and> ss < 60
             then Some (False,
                    ((days_from_civil y m d * 24 + int hh) * 60 + int mm) * 60000000
                      + int ss * 1000000 + int (if length s = 23 then f * 1000 else f))
             else None
         | _ \<Rightarrow> None))"

definition pad2 :: "nat \<Rightarrow> string" where
  "pad2 n = [''0123456789'' ! (n div 10 mod 10), ''0123456789'' ! (n mod 10)]"

definition utc_isoformat_minutes :: "int \<Rightarrow> string" where
  "utc_isoformat_minutes t =
     (let minutes = t div 60000000;
          z = minutes div 1440 + 719468;
          era = z div 146097;
          doe = z - era * 146097;
          yoe = (doe - doe div 1460 + doe div 36524 - doe div 146096) div 365;
          doy = doe - (365 * yoe + yoe div 4 - yoe div 100);
          mp = (5 * doy + 2) div 153;
          d = doy - (153 * mp + 2) div 5 + 1;
          m = (if mp < 10 then mp + 3 else mp - 9);
          y = yoe + era * 400 + (if m \<le> 2 then 1 else 0)
      in pad2 (nat (y div 100)) @ pad2 (nat (y mod 100)) @ ''-'' @ pad2 (nat m) @ ''-''
           @ pad2 (nat d) @ ''T'' @ pad2 (nat (minutes mod 1440 div 60)) @ '':''
           @ pad2 (nat (minutes mod 60)))"

definition utc :: datetime_lib where
  "utc = \<lparr>fromisoformat = utc_fromisoformat, isoformat_minutes = utc_isoformat_minutes\<rparr>"

section \<open>Volumes and replication\<close>









text \<open>
  The loop of \<^verbatim>\<open>breakVolumeReplicationByID\<close> (class \<open>gcpcvs\<close>) that waits for the break:
  it ends when the relationship is \<^verbatim>\<open>"available"\<close>, raises \<^verbatim>\<open>RuntimeError\<close> with the
  details when it is in \<^verbatim>\<open>"error"\<close>, and raises \<^verbatim>\<open>TimeoutError\<close> after five minutes.
\<close>

function break_wait :: "piece list \<Rightarrow> int \<Rightarrow> json prog" where
  "break_wait u start w =
     (case do_api_get u (sleep 15 w) of
        (Inl e, w1) \<Rightarrow> (Inl e, w1)
      | (Inr res, w1) \<Rightarrow>
         (case json_of res of
            Inl e \<Rightarrow> (Inl e, w1)
          | Inr j \<Rightarrow>
             (case getitem j ''lifeCycleState'' of
                Inl e \<Rightarrow> (Inl e, w1)
              | Inr state \<Rightarrow>
                 if state = JStr ''available'' then (Inr j, w1)
                 else if state = JStr ''error'' then
                   (case getitem j ''lifeCycleStateDetails'' of
                      Inl e \<Rightarrow> (Inl e, w1)
                    | Inr details \<Rightarrow> (Inl (RuntimeError details), w1))
                 else if clock w1 > start + 5 * 60 * 1000000 then (Inl TimeoutError, w1)
                 else break_wait u start w1)))"
  by pat_completeness auto

termination break_wait
  by (relation "measure (\<lambda>(u, start, w). length (script w))")
     (auto dest!: do_api_get_script [OF sym])

declare break_wait.simps [simp del]

definition breakVolumeReplicationByID :: "client \<Rightarrow> string \<Rightarrow> string \<Rightarrow> bool \<Rightarrow> json prog" where
  "breakVolumeReplicationByID self destination_region relationshipID force =
     pbind (do_api_post
              (locations self destination_region
                 [Text ''/VolumeReplications/'', Value (JStr relationshipID), Text ''/Break''])
              (JObj [(''force'', JBool force)]) 600) (\<lambda>r.
     pbind now (\<lambda>start.
     break_wait
       (locations self destination_region
          [Text ''/VolumeReplications/'', Value (JStr relationshipID)])
       start))"

section \<open>A scripted service\<close>

text \<open>
  Concrete replies and listings, for running the client. The volume \<open>vol1\<close> has the
  identifier \<open>abcdef12-3456\<close>, so the rotation names its backups
  \<open>vol1-abcdef-<timestamp>\<close>.
\<close>

definition answer :: "nat \<Rightarrow> json \<Rightarrow> reply" where
  "answer s j = Reply \<lparr>status_code = s, body = Some j, took = 250000\<rparr>"

definition backup_entry :: "string \<Rightarrow> string \<Rightarrow> string \<Rightarrow> json" where
  "backup_entry name created backupId =
     JObj [(''name'', JStr name), (''created'', JStr created), (''backupId'', JStr backupId)]"

definition lifeCycleState :: "string \<Rightarrow> json" where
  "lifeCycleState s = JObj [(''lifeCycleState'', JStr s)]"

definition accepted_backup :: "string \<Rightarrow> json" where
  "accepted_backup backupId =
     JObj [(''response'', JObj [(''AnyValue'', JObj [(''backupId'', JStr backupId)])])]"

definition vol1 :: json where
  "vol1 = JList [JObj [(''name'', JStr ''vol1''), (''volumeId'', JStr ''abcdef12-3456'')]]"

definition b1 :: json where
  "b1 = backup_entry ''vol1-abcdef-2024-01-01T10:00'' ''2024-01-01T10:00:05.000Z'' ''b1''"

definition b2 :: json where
  "b2 = backup_entry ''vol1-abcdef-2024-01-02T10:00'' ''2024-01-02T10:00:04.000Z'' ''b2''"

definition b3 :: json where
  "b3 = backup_entry ''vol1-abcdef-2024-01-03T10:00'' ''2024-01-03T10:00:07.000Z'' ''b3''"

definition b4 :: json where
  "b4 = backup_entry ''vol1-abcdef-2024-01-04T10:00'' ''2024-01-04T10:00:08.000Z'' ''b4''"

definition b5 :: json where
  "b5 = backup_entry ''vol1-abcdef-2024-01-05T10:00'' ''2024-01-05T10:00:03.000Z'' ''b5''"

definition b6 :: json where
  "b6 = backup_entry ''vol1-abcdef-2024-01-06T10:00'' ''2024-01-06T10:00:09.000Z'' ''b6''"

definition b7 :: json where
  "b7 = backup_entry ''vol1-abcdef-2024-01-07T10:00'' ''2024-01-07T10:00:02.000Z'' ''b7''"

text \<open>Two backups that were made by hand, and one made by hand with a name that
  resembles the names of the rotation.\<close>

definition m1 :: json where
  "m1 = backup_entry ''before-upgrade'' ''2024-01-02T12:00:00.000Z'' ''m1''"

definition m2 :: json where
  "m2 = backup_entry ''vol1-friday'' ''2024-01-05T18:30:00.000Z'' ''m2''"

definition m3 :: json where
  "m3 = backup_entry ''vol1-manual-2023-12-24T09:00 keep'' ''2023-12-24T09:00:00.000Z'' ''m3''"

definition listed_before :: "json list" where
  "listed_before = [b3, m1, b1, b6, b2, b5, m2, b4]"

definition listed_after :: "json list" where
  "listed_after = [b3, m1, b1, b6, b2, b5, m2, b4, b7]"

definition cvs :: "client_class \<Rightarrow> client" where
  "cvs c = \<lparr>klass = c, baseurl = ''https://cvs/v2/projects/42''\<rparr>"

text \<open>
  The service at 2024-01-07 10:00:00 UTC: it lists eight backups, names the volume,
  accepts the new backup \<open>b7\<close>, reports it as creating and then as available, and lists
  nine backups, seven of which have names of the rotation.
\<close>

definition at_start :: "reply list \<Rightarrow> world" where
  "at_start replies = \<lparr>script = replies, draws = [], clock = 1704621600000000, trace = []\<rparr>"

definition service :: "json list \<Rightarrow> json list \<Rightarrow> world" where
  "service before afterwards =
     at_start
       [answer 200 (JList before),
        answer 200 vol1,
        answer 202 (accepted_backup ''b7''),
        answer 200 (lifeCycleState ''creating''),
        answer 200 (lifeCycleState ''available''),
        answer 200 (JList afterwards)]"

text \<open>A service on which the new backup cannot be read while it is being created.\<close>

definition service_unavailable :: world where
  "service_unavailable =
     at_start
       [answer 200 (JList listed_before),
        answer 200 vol1,
        answer 202 (accepted_backup ''b7''),
        answer 200 (lifeCycleState ''creating''),
        answer 503 (JObj [(''message'', JStr ''Service Unavailable'')]),
        answer 200 (JList listed_after)]"

text \<open>A backup that has failed, with the reason that the service gives.\<close>

definition failed :: json where
  "failed =
     JObj [(''lifeCycleState'', JStr ''error''),
           (''lifeCycleStateDetails'', JStr ''source volume is offline'')]"

definition message :: "string \<Rightarrow> json" where
  "message m = JObj [(''code'', JInt 500), (''message'', JStr m)]"

text \<open>The world after each part of a rotation of the backups of \<open>vol1\<close> that starts in
  the world \<open>w\<close>.\<close>

definition w_prepared :: "client_class \<Rightarrow> int \<Rightarrow> world \<Rightarrow> world" where
  "w_prepared c count w =
     snd (rotate_prepare utc (cvs c) ''us-east4'' ''abcdef12-3456'' count w)"

definition w_created :: "client_class \<Rightarrow> int \<Rightarrow> world \<Rightarrow> world" where
  "w_created c count w =
     snd (createBackup (cvs c) ''us-east4'' ''abcdef12-3456'' ''vol1-abcdef-2024-01-07T10:00''
            (w_prepared c count w))"

definition w_selected :: "client_class \<Rightarrow> int \<Rightarrow> world \<Rightarrow> world" where
  "w_selected c count w =
     snd (rotate_select utc (cvs c) ''us-east4'' ''abcdef12-3456'' ''vol1'' (w_created c count w))"

text \<open>The compiled pattern of the volume \<open>vol1\<close>.\<close>

definition vol1_pattern :: "atom list" where
  "vol1_pattern =
     map Lit ''vol1-'' @ replicate 6 Dot
       @ [Lit CHR ''-'', Digit, Digit, Digit, Digit, Lit CHR ''-'', Digit, Digit, Lit CHR ''-'',
          Digit, Digit, Lit CHR ''T'', Digit, Digit, Lit CHR '':'', Digit, Digit]"

text \<open>The worlds of a rotation on the service that becomes unavailable.\<close>

definition w_waiting :: world where
  "w_waiting = w_prepared gcpcvs 3 service_unavailable"

definition w_given_up :: world where
  "w_given_up = w_created gcpcvs 3 service_unavailable"

text \<open>A service that refuses the new backup, whose name is taken, and the world in
  which \<^verbatim>\<open>createBackup\<close> of class \<open>GCPCVS\<close> then ends.\<close>

definition service_conflict :: world where
  "service_conflict =
     at_start
       [answer 200 (JList listed_before),
        answer 200 vol1,
        answer 409 (JObj [(''message'', JStr ''Backup name already exists'')]),
        answer 200 (JList listed_after)]"

definition w_refused :: world where
  "w_refused = w_created GCPCVS 3 service_conflict"







text \<open>A service on which the new backup fails before it becomes available.\<close>

definition failing_service :: world where
  "failing_service =
     at_start [answer 202 (accepted_backup ''b7''), answer 200 failed, answer 200 failed,
               answer 200 (lifeCycleState ''available'')]"

text \<open>
  The service of the seven backups, ready to accept four deletions after the second
  listing, and the world in which the last loop ends on it when the loop calls the
  method that the classes define.
\<close>

definition service_deleting :: world where
  "service_deleting =
     at_start
       [answer 200 (JList listed_before),
        answer 200 vol1,
        answer 202 (accepted_backup ''b7''),
        answer 200 (lifeCycleState ''creating''),
        answer 200 (lifeCycleState ''available''),
        answer 200 (JList listed_after),
        answer 202 (JObj []),
        answer 202 (JObj []),
        answer 202 (JObj []),
        answer 202 (JObj [])]"


section \<open>Notions for the properties\<close>




section \<open>Service level translation\<close>

text \<open>
  Both client classes (\<^verbatim>\<open>GCPCVS\<close> in \<^verbatim>\<open>src/GCPCVS.py\<close> and \<^verbatim>\<open>gcpcvs\<close> in
  \<^verbatim>\<open>src/gcpcvs/gcpcvs.py\<close>) define the same two translators. Each builds a
  four-entry dict and returns the entry of the argument, or \<^verbatim>\<open>None\<close> (after a
  warning) when the argument is not a key.
\<close>

definition serviceLevelsAPI :: "(string \<times> string) list" where
  "serviceLevelsAPI =
     [(''basic'', ''standard''),
      (''standard'', ''premium''),
      (''extreme'', ''extreme''),
      (''standard-sw'', ''standard-sw'')]"

definition serviceLevelsUI :: "(string \<times> string) list" where
  "serviceLevelsUI =
     [(''standard'', ''basic''),
      (''premium'', ''standard''),
      (''extreme'', ''extreme''),
      (''standard-sw'', ''standard-sw'')]"

definition translateServiceLevelAPI2UI :: "string \<Rightarrow> string option" where
  "translateServiceLevelAPI2UI serviceLevel =
     (if serviceLevel \<in> set (map fst serviceLevelsAPI)
      then map_of serviceLevelsAPI serviceLevel
      else None)"

definition translateServiceLevelUI2API :: "string \<Rightarrow> string option" where
  "translateServiceLevelUI2API serviceLevel =
     (if serviceLevel \<in> set (map fst serviceLevelsUI)
      then map_of serviceLevelsUI serviceLevel
      else None)"

text \<open>
  A translator applied to the result of another one. The argument \<^verbatim>\<open>None\<close> is not a
  key of either dict, so it is answered by \<^verbatim>\<open>None\<close>.
\<close>

definition after :: "(string \<Rightarrow> string option) \<Rightarrow> string option \<Rightarrow> string option" where
  "after f r = (case r of None \<Rightarrow> None | Some s \<Rightarrow> f s)"

section \<open>Requests that a run sends\<close>

text \<open>Everything that \<^verbatim>\<open>rotateBackup\<close> does before its last loop is quiet.\<close>

lemma pbind_Inl: "m w = (Inl e, w') \<Longrightarrow> pbind m f w = (Inl e, w')"
  by (simp add: pbind_def)

lemma pbind_Inr: "m w = (Inr x, w') \<Longrightarrow> pbind m f w = f x w'"
  by (simp add: pbind_def)

lemma requests_of_append: "requests_of (es @ fs) = requests_of es @ requests_of fs"
  by (induction es rule: requests_of.induct) simp_all

lemma deletes_of_append: "deletes_of (es @ fs) = deletes_of es @ deletes_of fs"
  by (simp add: deletes_of_def requests_of_append)

lemma deletes_of_Sent:
  "deletes_of [Sent rq] = (if verb rq = DELETE then [rq] else [])"
  by (simp add: deletes_of_def)

lemma deletes_of_Slept: "deletes_of [Slept n] = []"
  by (simp add: deletes_of_def)

lemma quietD: "quiet m \<Longrightarrow> m w = (r, w') \<Longrightarrow> deletes_of (trace w') = deletes_of (trace w)"
  by (simp add: quiet_def)

lemma quiet_ret: "quiet (ret x)" and quiet_raise: "quiet (raise e)"
  and quiet_lift: "quiet (lift r)" and quiet_now: "quiet now"
  by (simp_all add: quiet_def ret_def raise_def lift_def now_def)

lemma quiet_pbind:
  assumes "quiet m" and "\<And>x. quiet (f x)"
  shows "quiet (pbind m f)"
  unfolding quiet_def
proof (intro allI impI)
  fix w r w'
  assume run: "pbind m f w = (r, w')"
  obtain r1 w1 where m: "m w = (r1, w1)" by (cases "m w")
  have t1: "deletes_of (trace w1) = deletes_of (trace w)" using assms(1) m by (rule quietD)
  show "deletes_of (trace w') = deletes_of (trace w)"
  proof (cases r1)
    case (Inl e)
    with run m have "w' = w1" by (simp add: pbind_def)
    with t1 show ?thesis by simp
  next
    case (Inr x)
    with run m have "f x w1 = (r, w')" by (simp add: pbind_def)
    with assms(2) have "deletes_of (trace w') = deletes_of (trace w1)" by (rule quietD)
    with t1 show ?thesis by simp
  qed
qed

lemma sleep_deletes [simp]: "deletes_of (trace (sleep n w)) = deletes_of (trace w)"
  by (simp add: sleep_def deletes_of_append deletes_of_Slept)

lemma randrange_trace: "randrange_50_70 w = (d, w2) \<Longrightarrow> trace w2 = trace w"
  by (auto simp: randrange_50_70_def split: list.splits)

lemma send_deletes:
  "verb rq \<noteq> DELETE \<Longrightarrow> send rq w = (r, w') \<Longrightarrow> deletes_of (trace w') = deletes_of (trace w)"
  by (auto simp: send_def deletes_of_append deletes_of_Sent split: list.splits reply.splits)

lemma quiet_send: "verb rq \<noteq> DELETE \<Longrightarrow> quiet (send rq)"
  by (simp add: quiet_def send_deletes)

lemma quiet_do_api_get: "quiet (do_api_get u)"
  unfolding do_api_get_def by (intro quiet_pbind quiet_send quiet_lift) simp

lemma request_loop_deletes:
  "verb rq \<noteq> DELETE \<Longrightarrow> request_loop rq t tt w = (r, w')
     \<Longrightarrow> deletes_of (trace w') = deletes_of (trace w)"
proof (induction rq t tt w rule: request_loop.induct)
  case (1 rq t tt w)
  obtain r1 w1 where s: "send rq w = (r1, w1)" by (cases "send rq w")
  have t1: "deletes_of (trace w1) = deletes_of (trace w)"
    using "1.prems"(1) s by (rule send_deletes)
  show ?case
  proof (cases r1)
    case (Inl e)
    with "1.prems"(2) s have "w' = w1" by (simp add: request_loop.simps [of rq t tt w])
    with t1 show ?thesis by simp
  next
    case (Inr resp)
    note r1 = Inr
    show ?thesis
    proof (cases "json_of resp")
      case (Inl e)
      with "1.prems"(2) s r1 have "w' = w1" by (simp add: request_loop.simps [of rq t tt w])
      with t1 show ?thesis by simp
    next
      case (Inr reason)
      note js = Inr
      obtain d w2 where rr: "randrange_50_70 w1 = (d, w2)" by (cases "randrange_50_70 w1")
      have t2: "deletes_of (trace (sleep d w2)) = deletes_of (trace w)"
        using t1 randrange_trace [OF rr] by simp
      show ?thesis
      proof (cases "t \<noteq> 0 \<and> status_code resp \<notin> {200, 202} \<and> status_code resp \<in> {429, 409, 500}
                    \<and> job_slot_retry resp reason = Inr True \<and> \<not> tt \<le> clock (sleep d w2)")
        case True
        then have "request_loop rq t tt w = request_loop rq t tt (sleep d w2)"
          using s r1 js rr by (simp add: request_loop.simps [of rq t tt w])
        moreover have "request_loop rq t tt (sleep d w2) = (r, w')
              \<Longrightarrow> deletes_of (trace w') = deletes_of (trace (sleep d w2))"
          using "1.IH" [of r1 w1 resp reason True d w2] s [symmetric] r1 js True
            rr [symmetric] "1.prems"(1)
          by simp
        ultimately show ?thesis using "1.prems"(2) t2 by simp
      next
        case False
        then have "w' = w1 \<or> w' = sleep d w2"
          using "1.prems"(2) s r1 js rr
          by (auto simp: request_loop.simps [of rq t tt w] split: sum.splits if_splits)
        with t1 t2 show ?thesis by auto
      qed
    qed
  qed
qed


lemma quiet_request_loop: "verb rq \<noteq> DELETE \<Longrightarrow> quiet (request_loop rq t tt)"
  by (simp add: quiet_def request_loop_deletes)

lemma quiet_do_api_post: "quiet (do_api_post u pl t)"
  unfolding quiet_def
proof (intro allI impI)
  fix w r w'
  assume "do_api_post u pl t w = (r, w')"
  then have "pbind (request_loop \<lparr>verb = POST, url = u, payload = Some pl\<rparr> t
                (clock w + t * 1000000)) (\<lambda>r. lift (raise_for_status r)) w = (r, w')"
    by (simp add: do_api_post_def)
  moreover have "quiet (pbind (request_loop \<lparr>verb = POST, url = u, payload = Some pl\<rparr> t
                (clock w + t * 1000000)) (\<lambda>r. lift (raise_for_status r)))"
    by (intro quiet_pbind quiet_request_loop quiet_lift) simp
  ultimately show "deletes_of (trace w') = deletes_of (trace w)" by (rule quietD [rotated])
qed

lemma backup_wait_deletes:
  "backup_wait u w = (r, w') \<Longrightarrow> deletes_of (trace w') = deletes_of (trace w)"
proof (induction u w rule: backup_wait.induct)
  case (1 u w)
  obtain r1 w1 where g: "do_api_get u (sleep 5 w) = (r1, w1)"
    by (cases "do_api_get u (sleep 5 w)")
  have t1: "deletes_of (trace w1) = deletes_of (trace w)"
    using quietD [OF quiet_do_api_get g] by simp
  show ?case
  proof (cases "\<exists>resp j st. r1 = Inr resp \<and> json_of resp = Inr j
                  \<and> getitem j ''lifeCycleState'' = Inr st \<and> st \<noteq> JStr ''available''")
    case True
    then obtain resp j st where h: "r1 = Inr resp" "json_of resp = Inr j"
      "getitem j ''lifeCycleState'' = Inr st" "st \<noteq> JStr ''available''" by blast
    have "backup_wait u w = backup_wait u w1"
      using g h by (simp add: backup_wait.simps [of u w])
    with "1.prems" have "backup_wait u w1 = (r, w')" by simp
    then have "deletes_of (trace w') = deletes_of (trace w1)"
      using "1.IH" [of r1 w1 resp j st] g [symmetric] h by simp
    with t1 show ?thesis by simp
  next
    case False
    then have "w' = w1"
      using "1.prems" g
      by (auto simp: backup_wait.simps [of u w] split: sum.splits if_splits)
    with t1 show ?thesis by simp
  qed
qed

lemma quiet_backup_wait: "quiet (backup_wait u)"
  by (simp add: quiet_def backup_wait_deletes)

lemma quiet_if: "quiet a \<Longrightarrow> quiet b \<Longrightarrow> quiet (if c then a else b)"
  by simp

lemma quiet_createBackup: "quiet (createBackup self region volumeID name)"
  unfolding createBackup_def Let_def
  by (cases "klass self")
     (simp_all add: quiet_pbind quiet_send quiet_do_api_post quiet_lift quiet_ret
        quiet_backup_wait)

lemma quiet_getBackupsByVolumeID: "quiet (getBackupsByVolumeID self region volumeID)"
  unfolding getBackupsByVolumeID_def by (intro quiet_pbind quiet_do_api_get quiet_lift)

lemma quiet_getVolumesByVolumeID: "quiet (getVolumesByVolumeID self region volumeID)"
  unfolding getVolumesByVolumeID_def by (intro quiet_pbind quiet_do_api_get quiet_lift)

lemma quiet_rotate_prepare: "quiet (rotate_prepare dt self region volumeID count)"
  unfolding rotate_prepare_def Let_def
  by (simp add: quiet_pbind quiet_getBackupsByVolumeID quiet_getVolumesByVolumeID quiet_lift
        quiet_ret quiet_now)

lemma quiet_rotate_select: "quiet (rotate_select dt self region volumeID volumename)"
  unfolding rotate_select_def
  by (intro quiet_pbind quiet_getBackupsByVolumeID quiet_lift)

lemma getattr_deleteBackupbyBackupID:
  "getattr self ''deleteBackupbyBackupID'' = Inl (AttributeError ''deleteBackupbyBackupID'')"
  by (cases "klass self") (simp_all add: getattr_def namespace_def)

lemma prune_loop_raises:
  "i < length sortedbackups \<Longrightarrow>
     prune_loop self region sortedbackups i w
       = (Inl (AttributeError ''deleteBackupbyBackupID''), w)"
  by (simp add: prune_loop.simps [of self region sortedbackups i w]
        getattr_deleteBackupbyBackupID)

lemma prune_loop_nothing:
  "\<not> i < length sortedbackups \<Longrightarrow> prune_loop self region sortedbackups i w = (Inr (), w)"
  by (simp add: prune_loop.simps [of self region sortedbackups i w])

lemma rotateBackup_selected:
  assumes "rotate_prepare dt self region volumeID count w = (Inr (Some (volumename, backupname)), w1)"
    and "createBackup self region volumeID backupname w1 = (Inr True, w2)"
    and "rotate_select dt self region volumeID volumename w2 = (Inr sortedbackups, w3)"
  shows "rotateBackup dt self region volumeID count w
           = pbind (prune_loop self region sortedbackups (nat count)) (\<lambda>_. ret True) w3"
  by (simp add: rotateBackup_def pbind_def assms)

lemma rotate_quiet_steps:
  assumes "rotate_prepare dt self region volumeID count w = (p, w1)"
    and "createBackup self region volumeID backupname w1 = (c, w2)"
    and "rotate_select dt self region volumeID volumename w2 = (s, w3)"
  shows "deletes_of (trace w1) = deletes_of (trace w)"
    and "deletes_of (trace w2) = deletes_of (trace w)"
    and "deletes_of (trace w3) = deletes_of (trace w)"
  using quietD [OF quiet_rotate_prepare assms(1)] quietD [OF quiet_createBackup assms(2)]
    quietD [OF quiet_rotate_select assms(3)]
  by simp_all

lemma rotate_prepare_count:
  "rotate_prepare dt self region volumeID count w = (Inr (Some x), w1) \<Longrightarrow> 1 \<le> count \<and> count \<le> 30"
  by (rule ccontr) (simp add: rotate_prepare_def ret_def)

text \<open>The last loop of the source leaves the world as it is; so \<^verbatim>\<open>rotateBackup\<close> is
  quiet.\<close>

lemma prune_loop_world: "prune_loop self region sb i w = (r, w') \<Longrightarrow> w' = w"
  by (cases "i < length sb") (simp_all add: prune_loop_raises prune_loop_nothing)

lemma quiet_prune_loop: "quiet (prune_loop self region sb i)"
  by (auto simp: quiet_def dest: prune_loop_world)

lemma quiet_rotateBackup: "quiet (rotateBackup dt self region volumeID count)"
  unfolding rotateBackup_def
  by (intro quiet_pbind quiet_rotate_prepare)
     (auto intro!: quiet_pbind quiet_createBackup quiet_rotate_select quiet_prune_loop quiet_ret
        split: option.splits)
















section \<open>The scripted service, run\<close>

lemma compile_vol1: "compile_pattern ''vol1'' = Inr vol1_pattern"
  by code_simp

lemma select_listed_after:
  "select_matching vol1_pattern listed_after = Inr [b3, b1, b6, b2, b5, b4, b7]"
  by code_simp

lemma sorted_listed_after:
  "sorted_reverse utc [b3, b1, b6, b2, b5, b4, b7] = Inr [b7, b6, b5, b4, b3, b2, b1]"
  by code_simp

lemma minutes_at_start: "isoformat_minutes utc 1704621600500000 = ''2024-01-07T10:00''"
  by code_simp

lemma length_listed_before: "length listed_before = 8"
  by (simp add: listed_before_def)

lemmas run = send_def do_api_get_def pbind_def lift_def ret_def raise_def raise_for_status_def
  json_of_def getBackupsByVolumeID_def getVolumesByVolumeID_def locations_def cvs_def answer_def
  service_def at_start_def now_def str_of_def vol1_def sleep_def lifeCycleState_def
  accepted_backup_def

lemma run_prepare:
  assumes "1 \<le> count" and "count \<le> 30" and "length before \<noteq> 32"
  shows "rotate_prepare utc (cvs c) ''us-east4'' ''abcdef12-3456'' count (service before afterwards)
     = (Inr (Some (''vol1'', ''vol1-abcdef-2024-01-07T10:00'')),
        w_prepared c count (service before afterwards))"
  unfolding w_prepared_def
  using assms by (simp add: run rotate_prepare_def minutes_at_start)

lemma run_create:
  assumes "1 \<le> count" and "count \<le> 30" and "length before \<noteq> 32"
  shows "createBackup (cvs c) ''us-east4'' ''abcdef12-3456'' ''vol1-abcdef-2024-01-07T10:00''
     (w_prepared c count (service before afterwards))
       = (Inr True, w_created c count (service before afterwards))"
  unfolding w_created_def w_prepared_def
  using assms
  by (cases c)
     (simp_all add: run rotate_prepare_def minutes_at_start
        createBackup_def backup_wait.simps do_api_post_def request_loop.simps)

lemma run_select:
  assumes "1 \<le> count" and "count \<le> 30" and "length before \<noteq> 32"
    and "select_matching vol1_pattern afterwards = Inr matching"
    and "sorted_reverse utc matching = Inr sortedbackups"
  shows "rotate_select utc (cvs c) ''us-east4'' ''abcdef12-3456'' ''vol1''
     (w_created c count (service before afterwards))
       = (Inr sortedbackups, w_selected c count (service before afterwards))"
  unfolding w_selected_def w_created_def w_prepared_def
  using assms
  by (cases c)
     (simp_all add: run rotate_prepare_def compile_vol1
        minutes_at_start createBackup_def backup_wait.simps
        rotate_select_def do_api_post_def request_loop.simps)

lemma three: "1 \<le> (3::int)" "(3::int) \<le> 30" "length listed_before \<noteq> 32"
  by (simp_all add: length_listed_before)

lemmas run3 =
  run_prepare [OF three] run_create [OF three]
  run_select [OF three select_listed_after sorted_listed_after]

section \<open>The rotation\<close>

lemma rotateBackup_raises:
  assumes "rotate_prepare dt self region volumeID count w
             = (Inr (Some (volumename, backupname)), w1)"
    and "createBackup self region volumeID backupname w1 = (Inr True, w2)"
    and "rotate_select dt self region volumeID volumename w2 = (Inr sortedbackups, w3)"
    and "count < int (length sortedbackups)"
  shows "rotateBackup dt self region volumeID count w
           = (Inl (AttributeError ''deleteBackupbyBackupID''), w3)
         \<and> deletes_of (trace w3) = deletes_of (trace w)"
proof -
  have "nat count < length sortedbackups"
    using assms(4) rotate_prepare_count [OF assms(1)] by linarith
  then have "prune_loop self region sortedbackups (nat count) w3
               = (Inl (AttributeError ''deleteBackupbyBackupID''), w3)"
    by (rule prune_loop_raises)
  then show ?thesis
    using rotateBackup_selected [OF assms(1-3)] rotate_quiet_steps(3) [OF assms(1-3)]
    by (simp add: pbind_def)
qed

text \<open>
  C1. In both classes the last loop of \<^verbatim>\<open>rotateBackup\<close> calls the attribute
  \<^verbatim>\<open>deleteBackupbyBackupID\<close>, and the class defines \<^verbatim>\<open>deleteBackupByBackupID\<close>. So
  every rotation that has created its backup and then finds more backups of its
  pattern than \<open>count\<close> raises \<^verbatim>\<open>AttributeError\<close> at the first deletion: it ends in the
  world in which the backups were listed, and no DELETE request has been sent.
\<close>

theorem C1_rotateBackup_AttributeError:
  assumes "rotate_prepare dt self region volumeID count w = (Inr (Some (volumename, backupname)), w1)"
    and "createBackup self region volumeID backupname w1 = (Inr True, w2)"
    and "rotate_select dt self region volumeID volumename w2 = (Inr sortedbackups, w3)"
    and "count < int (length sortedbackups)"
  shows "rotateBackup dt self region volumeID count w
           = (Inl (AttributeError ''deleteBackupbyBackupID''), w3)
         \<and> deletes_of (trace w3) = deletes_of (trace w)"
  using assms by (rule rotateBackup_raises)

theorem C1_witness:
  "rotateBackup utc (cvs GCPCVS) ''us-east4'' ''abcdef12-3456'' 3
       (service listed_before listed_after)
     = (Inl (AttributeError ''deleteBackupbyBackupID''),
        w_selected GCPCVS 3 (service listed_before listed_after))
   \<and> rotateBackup utc (cvs gcpcvs) ''us-east4'' ''abcdef12-3456'' 3
       (service listed_before listed_after)
     = (Inl (AttributeError ''deleteBackupbyBackupID''),
        w_selected gcpcvs 3 (service listed_before listed_after))
   \<and> deletes_of (trace (w_selected GCPCVS 3 (service listed_before listed_after))) = []
   \<and> deletes_of (trace (w_selected gcpcvs 3 (service listed_before listed_after))) = []"
  using C1_rotateBackup_AttributeError [OF run3, of GCPCVS]
    C1_rotateBackup_AttributeError [OF run3, of gcpcvs]
  by (simp add: service_def at_start_def deletes_of_def)

text \<open>
  C9. A retention count outside 1 to 30 is refused before any request: \<^verbatim>\<open>rotateBackup\<close>
  returns \<^verbatim>\<open>False\<close>, which is how it reports a failure, and leaves the world as it was
  (nothing listed, looked up, created or deleted, no sleep).
\<close>

theorem C9_rotateBackup_validation:
  "\<not> (1 \<le> count \<and> count \<le> 30) \<Longrightarrow>
     rotateBackup dt self region volumeID count w = (Inr False, w)"
  by (simp add: rotateBackup_def rotate_prepare_def pbind_def ret_def)

theorem C9_witness:
  "\<not> (1 \<le> (0::int) \<and> (0::int) \<le> 30) \<and> \<not> (1 \<le> (31::int) \<and> (31::int) \<le> 30)
   \<and> rotateBackup utc (cvs gcpcvs) ''us-east4'' ''abcdef12-3456'' 0 (service listed_before listed_after)
       = (Inr False, service listed_before listed_after)
   \<and> rotateBackup utc (cvs GCPCVS) ''us-east4'' ''abcdef12-3456'' 31 (service listed_before listed_after)
       = (Inr False, service listed_before listed_after)
   \<and> trace (service listed_before listed_after) = []"
  using C9_rotateBackup_validation [of 0 utc "cvs gcpcvs" "''us-east4''" "''abcdef12-3456''" "service listed_before listed_after"]
    C9_rotateBackup_validation [of 31 utc "cvs GCPCVS" "''us-east4''" "''abcdef12-3456''" "service listed_before listed_after"]
  by (simp add: service_def at_start_def)
lemma run_prepare_unavailable:
  "rotate_prepare utc (cvs gcpcvs) ''us-east4'' ''abcdef12-3456'' 3 service_unavailable
     = (Inr (Some (''vol1'', ''vol1-abcdef-2024-01-07T10:00'')), w_waiting)"
  unfolding w_waiting_def w_prepared_def
  by (simp add: run service_unavailable_def rotate_prepare_def minutes_at_start length_listed_before)

lemma run_create_unavailable:
  "createBackup (cvs gcpcvs) ''us-east4'' ''abcdef12-3456'' ''vol1-abcdef-2024-01-07T10:00'' w_waiting
     = (Inl (HTTPError 503), w_given_up)"
  unfolding w_given_up_def w_waiting_def w_created_def w_prepared_def
  by (simp add: run service_unavailable_def rotate_prepare_def minutes_at_start length_listed_before
        createBackup_def backup_wait.simps do_api_post_def request_loop.simps)

lemma given_up: "script w_given_up = [answer 200 (JList listed_after)]"
  unfolding w_given_up_def w_waiting_def w_created_def w_prepared_def
  by (simp add: run service_unavailable_def rotate_prepare_def minutes_at_start length_listed_before
        createBackup_def backup_wait.simps do_api_post_def request_loop.simps)

lemma run_prepare_conflict:
  "rotate_prepare utc (cvs GCPCVS) ''us-east4'' ''abcdef12-3456'' 3 service_conflict
     = (Inr (Some (''vol1'', ''vol1-abcdef-2024-01-07T10:00'')),
        w_prepared GCPCVS 3 service_conflict)"
  unfolding w_prepared_def
  by (simp add: run service_conflict_def rotate_prepare_def minutes_at_start length_listed_before)

lemma run_create_conflict:
  "createBackup (cvs GCPCVS) ''us-east4'' ''abcdef12-3456'' ''vol1-abcdef-2024-01-07T10:00''
     (w_prepared GCPCVS 3 service_conflict) = (Inr False, w_refused)"
  unfolding w_refused_def w_created_def w_prepared_def
  by (simp add: run service_conflict_def rotate_prepare_def minutes_at_start length_listed_before
        createBackup_def)

lemma refused: "script w_refused = [answer 200 (JList listed_after)]"
  unfolding w_refused_def w_created_def w_prepared_def
  by (simp add: run service_conflict_def rotate_prepare_def minutes_at_start length_listed_before
        createBackup_def)

text \<open>
  C5. The creation of the new backup comes before any deletion: up to the end of
  \<^verbatim>\<open>createBackup\<close> no DELETE request is sent, and when \<^verbatim>\<open>createBackup\<close> does not
  return \<^verbatim>\<open>True\<close> (it raises while it posts or waits, or returns \<^verbatim>\<open>False\<close>) the
  rotation ends there, with that exception or with \<^verbatim>\<open>False\<close>, in the world in which
  \<^verbatim>\<open>createBackup\<close> ended: nothing is listed again and nothing is deleted.
\<close>

theorem C5_creation_before_pruning:
  assumes "rotate_prepare dt self region volumeID count w
             = (Inr (Some (volumename, backupname)), w1)"
    and "createBackup self region volumeID backupname w1 = (r, w2)"
  shows "deletes_of (trace w2) = deletes_of (trace w)
         \<and> (r \<noteq> Inr True \<longrightarrow>
              rotateBackup dt self region volumeID count w
                = ((case r of Inl e \<Rightarrow> Inl e | Inr _ \<Rightarrow> Inr False), w2))"
proof -
  have "deletes_of (trace w2) = deletes_of (trace w)"
    using quietD [OF quiet_rotate_prepare assms(1)] quietD [OF quiet_createBackup assms(2)]
    by simp
  moreover have "rotateBackup dt self region volumeID count w
                = ((case r of Inl e \<Rightarrow> Inl e | Inr _ \<Rightarrow> Inr False), w2)" if "r \<noteq> Inr True"
    using that assms by (cases r) (simp_all add: rotateBackup_def pbind_def ret_def)
  ultimately show ?thesis by simp
qed

theorem C5_witness:
  "rotateBackup utc (cvs gcpcvs) ''us-east4'' ''abcdef12-3456'' 3 service_unavailable
     = (Inl (HTTPError 503), w_given_up)
   \<and> deletes_of (trace w_given_up) = []
   \<and> script w_given_up = [answer 200 (JList listed_after)]
   \<and> rotateBackup utc (cvs GCPCVS) ''us-east4'' ''abcdef12-3456'' 3 service_conflict
     = (Inr False, w_refused)
   \<and> deletes_of (trace w_refused) = []
   \<and> script w_refused = [answer 200 (JList listed_after)]"
  using C5_creation_before_pruning [OF run_prepare_unavailable run_create_unavailable] given_up
    C5_creation_before_pruning [OF run_prepare_conflict run_create_conflict] refused
  by (simp add: service_unavailable_def service_conflict_def at_start_def deletes_of_def)

section \<open>The retrying requests\<close>

lemma send_Reply:
  "script w = Reply r # rest \<Longrightarrow> send rq w = (Inr r, received rq r rest w)"
  by (simp add: send_def received_def)

lemma request_loop_zero:
  assumes "script w = Reply r # rest"
  shows "request_loop rq 0 tt w
           = ((case json_of r of Inl e \<Rightarrow> Inl e | Inr j \<Rightarrow> Inr r), received rq r rest w)"
  by (simp add: request_loop.simps [of rq 0 tt w] send_Reply [OF assms] split: sum.splits)

text \<open>
  C10, as amended. With \<^verbatim>\<open>timeout_seconds = 0\<close> the helpers \<^verbatim>\<open>_do_api_post\<close> and
  \<^verbatim>\<open>_do_api_delete\<close> send exactly one request and neither sleep nor repeat it; of the
  body they only require that it is JSON. They raise \<^verbatim>\<open>HTTPError\<close> at once for a status
  from 400 to 599; every other response, also one whose status is neither 200 nor 202
  (201 for instance), is returned to the caller.
\<close>

theorem C10_zero_window:
  assumes "script w = Reply r # rest"
  shows "do_api_post u pl 0 w
           = ((case json_of r of Inl e \<Rightarrow> Inl e | Inr j \<Rightarrow> raise_for_status r),
              received \<lparr>verb = POST, url = u, payload = Some pl\<rparr> r rest w)
         \<and> do_api_delete u 0 w
           = ((case json_of r of Inl e \<Rightarrow> Inl e | Inr j \<Rightarrow> raise_for_status r),
              received \<lparr>verb = DELETE, url = u, payload = None\<rparr> r rest w)
         \<and> raise_for_status r
           = (if 400 \<le> status_code r \<and> status_code r < 600
              then Inl (HTTPError (status_code r)) else Inr r)"
  by (simp add: do_api_post_def do_api_delete_def pbind_def lift_def
        request_loop_zero [OF assms] raise_for_status_def split: sum.splits)

theorem C10_witness:
  "do_api_post [Text ''/Pools''] (JObj []) 0
     (at_start [answer 500 (message ''Error creating pool - Cannot spawn additional jobs''),
                answer 200 (JObj [])])
     = (Inl (HTTPError 500),
        \<lparr>script = [answer 200 (JObj [])], draws = [], clock = 1704621600250000,
          trace = [Sent \<lparr>verb = POST, url = [Text ''/Pools''], payload = Some (JObj [])\<rparr>]\<rparr>)
   \<and> do_api_delete [Text ''/Pools/p1''] 0
     (at_start [Reply \<lparr>status_code = 204, body = None, took = 250000\<rparr>, answer 200 (JObj [])])
     = (Inl JSONDecodeError,
        \<lparr>script = [answer 200 (JObj [])], draws = [], clock = 1704621600250000,
          trace = [Sent \<lparr>verb = DELETE, url = [Text ''/Pools/p1''], payload = None\<rparr>]\<rparr>)"
  using C10_zero_window
    [of "at_start [answer 500 (message ''Error creating pool - Cannot spawn additional jobs''),
                   answer 200 (JObj [])]"
      "\<lparr>status_code = 500,
         body = Some (message ''Error creating pool - Cannot spawn additional jobs''),
         took = 250000\<rparr>"
      "[answer 200 (JObj [])]" "[Text ''/Pools'']" "JObj []"]
    C10_zero_window
    [of "at_start [Reply \<lparr>status_code = 204, body = None, took = 250000\<rparr>, answer 200 (JObj [])]"
      "\<lparr>status_code = 204, body = None, took = 250000\<rparr>"
      "[answer 200 (JObj [])]" "[Text ''/Pools/p1'']"]
  by (simp add: at_start_def answer_def received_def json_of_def)

theorem C10_counterexample:
  "(201::nat) \<notin> {200, 202}
   \<and> do_api_post [Text ''/Backups''] (JObj []) 0 (at_start [answer 201 (accepted_backup ''b7'')])
     = (Inr \<lparr>status_code = 201, body = Some (accepted_backup ''b7''), took = 250000\<rparr>,
        \<lparr>script = [], draws = [], clock = 1704621600250000,
          trace = [Sent \<lparr>verb = POST, url = [Text ''/Backups''], payload = Some (JObj [])\<rparr>]\<rparr>)"
  by (simp add: do_api_post_def pbind_def lift_def request_loop.simps send_def json_of_def
        raise_for_status_def at_start_def answer_def)








section \<open>Waiting for completion\<close>

lemma break_wait_error:
  assumes "script w = Reply r # rest" and "status_code r < 400"
    and "body r = Some (JObj kvs)" and "map_of kvs ''lifeCycleState'' = Some (JStr ''error'')"
    and "map_of kvs ''lifeCycleStateDetails'' = Some details"
  shows "break_wait u start w
           = (Inl (RuntimeError details),
              received \<lparr>verb = GET, url = u, payload = None\<rparr> r rest (sleep 15 w))"
proof -
  have "script (sleep 15 w) = Reply r # rest" using assms(1) by simp
  then have "do_api_get u (sleep 15 w)
               = (Inr r, received \<lparr>verb = GET, url = u, payload = None\<rparr> r rest (sleep 15 w))"
    using assms(2)
    by (simp add: do_api_get_def pbind_def lift_def raise_for_status_def send_Reply)
  then show ?thesis
    using assms(3-5) by (simp add: break_wait.simps [of u start w] json_of_def)
qed

lemma backup_wait_error:
  assumes "script w = Reply r # rest" and "status_code r < 400"
    and "body r = Some (JObj kvs)" and "map_of kvs ''lifeCycleState'' = Some (JStr ''error'')"
  shows "backup_wait u w
           = backup_wait u (received \<lparr>verb = GET, url = u, payload = None\<rparr> r rest (sleep 5 w))"
proof -
  have "script (sleep 5 w) = Reply r # rest" using assms(1) by simp
  then have "do_api_get u (sleep 5 w)
               = (Inr r, received \<lparr>verb = GET, url = u, payload = None\<rparr> r rest (sleep 5 w))"
    using assms(2)
    by (simp add: do_api_get_def pbind_def lift_def raise_for_status_def send_Reply)
  then show ?thesis
    using assms(3-4) by (simp add: backup_wait.simps [of u w] json_of_def)
qed

text \<open>
  C8, not met by the code. The wait of \<^verbatim>\<open>breakVolumeReplicationByID\<close> ends with
  \<^verbatim>\<open>RuntimeError\<close> and the details of the service when the state is \<^verbatim>\<open>"error"\<close>
  (\<open>break_wait_error\<close>). The wait of \<^verbatim>\<open>createBackup\<close> does not: on \<^verbatim>\<open>"error"\<close> it
  sleeps and reads the backup again (\<open>backup_wait_error\<close>). Here the service reports the
  failed backup twice and then an available one: both classes read it three times and
  return \<^verbatim>\<open>True\<close>, where the wait for the break raises on the first report.
\<close>

theorem C8_createBackup_polls_on_error:
  "fst (createBackup (cvs GCPCVS) ''us-east4'' ''abcdef12-3456'' ''vol1-abcdef-2024-01-07T10:00''
          failing_service) = Inr True
   \<and> fst (createBackup (cvs gcpcvs) ''us-east4'' ''abcdef12-3456'' ''vol1-abcdef-2024-01-07T10:00''
          failing_service) = Inr True
   \<and> map verb (requests_of (trace (snd (createBackup (cvs gcpcvs) ''us-east4'' ''abcdef12-3456''
          ''vol1-abcdef-2024-01-07T10:00'' failing_service)))) = [POST, GET, GET, GET]
   \<and> sleeps_of (trace (snd (createBackup (cvs gcpcvs) ''us-east4'' ''abcdef12-3456''
          ''vol1-abcdef-2024-01-07T10:00'' failing_service))) = [5, 5, 5]
   \<and> fst (break_wait
            (locations (cvs gcpcvs) ''us-east4'' [Text ''/VolumeReplications/'', Value (JStr ''r1'')])
            1704621600000000
            (at_start [answer 200 failed, answer 200 (lifeCycleState ''available'')]))
       = Inl (RuntimeError (JStr ''source volume is offline''))"
  by (simp add: run failing_service_def failed_def createBackup_def backup_wait.simps
        break_wait.simps do_api_post_def request_loop.simps)

section \<open>Selection and order of the backups to delete\<close>






































text \<open>
  C4. Whatever the service lists, a rotation deletes no backup whose name does not match
  the pattern of the rotation: a run of \<^verbatim>\<open>rotateBackup\<close> sends no DELETE request at
  all, so the DELETE requests of the trace after the run are those of the trace before
  it. Every backup that \<^verbatim>\<open>rotateBackup\<close> deletes has a name of the pattern, as there is
  none, and the backups that were made by hand are never deleted.
\<close>

theorem C4_unrelated_backups_never_deleted:
  "deletes_of (trace (snd (rotateBackup dt self region volumeID count w))) = deletes_of (trace w)"
  by (cases "rotateBackup dt self region volumeID count w")
     (simp add: quietD [OF quiet_rotateBackup])

theorem C4_witness:
  "deletes_of (trace (snd (rotateBackup utc (cvs GCPCVS) ''us-east4'' ''abcdef12-3456'' 3
       service_deleting))) = []
   \<and> deletes_of (trace (snd (rotateBackup utc (cvs gcpcvs) ''us-east4'' ''abcdef12-3456'' 1
       (service [m3] [b7, m3])))) = []"
  using C4_unrelated_backups_never_deleted [of utc "cvs GCPCVS" "''us-east4''" "''abcdef12-3456''" 3
      service_deleting]
    C4_unrelated_backups_never_deleted [of utc "cvs gcpcvs" "''us-east4''" "''abcdef12-3456''" 1
      "service [m3] [b7, m3]"]
  by (simp add: service_deleting_def service_def at_start_def deletes_of_def)


section \<open>Properties of the service level translation\<close>

lemma API2UI_values:
  "translateServiceLevelAPI2UI ''basic'' = Some ''standard''"
  "translateServiceLevelAPI2UI ''standard'' = Some ''premium''"
  "translateServiceLevelAPI2UI ''extreme'' = Some ''extreme''"
  "translateServiceLevelAPI2UI ''standard-sw'' = Some ''standard-sw''"
  by (simp_all add: translateServiceLevelAPI2UI_def serviceLevelsAPI_def)

lemma UI2API_values:
  "translateServiceLevelUI2API ''standard'' = Some ''basic''"
  "translateServiceLevelUI2API ''premium'' = Some ''standard''"
  "translateServiceLevelUI2API ''extreme'' = Some ''extreme''"
  "translateServiceLevelUI2API ''standard-sw'' = Some ''standard-sw''"
  by (simp_all add: translateServiceLevelUI2API_def serviceLevelsUI_def)

text \<open>
  C7. For each of the four API service levels \<open>basic\<close>, \<open>standard\<close>, \<open>extreme\<close> and
  \<open>standard-sw\<close>, translating API to UI, back to API and again to UI gives the result
  of the single API-to-UI translation, which is a real name; and each translator
  answers \<^verbatim>\<open>None\<close> for every argument that is not a key of its own side of the table
  (the API names for \<open>translateServiceLevelAPI2UI\<close>, the UI names \<open>standard\<close>,
  \<open>premium\<close>, \<open>extreme\<close>, \<open>standard-sw\<close> for \<open>translateServiceLevelUI2API\<close>).
\<close>

theorem C7_translate_round_trip:
  "(x \<in> {''basic'', ''standard'', ''extreme'', ''standard-sw''} \<longrightarrow>
      after translateServiceLevelAPI2UI
        (after translateServiceLevelUI2API (translateServiceLevelAPI2UI x))
        = translateServiceLevelAPI2UI x
      \<and> translateServiceLevelAPI2UI x \<noteq> None)
   \<and> (x \<notin> {''basic'', ''standard'', ''extreme'', ''standard-sw''} \<longrightarrow>
      translateServiceLevelAPI2UI x = None)
   \<and> (x \<notin> {''standard'', ''premium'', ''extreme'', ''standard-sw''} \<longrightarrow>
      translateServiceLevelUI2API x = None)"
proof (intro conjI impI)
  assume "x \<in> {''basic'', ''standard'', ''extreme'', ''standard-sw''}"
  then consider "x = ''basic''" | "x = ''standard''" | "x = ''extreme''" | "x = ''standard-sw''"
    by blast
  then show "after translateServiceLevelAPI2UI
        (after translateServiceLevelUI2API (translateServiceLevelAPI2UI x))
        = translateServiceLevelAPI2UI x"
    by cases (simp_all add: API2UI_values UI2API_values after_def)
next
  assume "x \<in> {''basic'', ''standard'', ''extreme'', ''standard-sw''}"
  then consider "x = ''basic''" | "x = ''standard''" | "x = ''extreme''" | "x = ''standard-sw''"
    by blast
  then show "translateServiceLevelAPI2UI x \<noteq> None"
    by cases (simp_all add: API2UI_values)
next
  assume "x \<notin> {''basic'', ''standard'', ''extreme'', ''standard-sw''}"
  then show "translateServiceLevelAPI2UI x = None"
    by (simp add: translateServiceLevelAPI2UI_def serviceLevelsAPI_def)
next
  assume "x \<notin> {''standard'', ''premium'', ''extreme'', ''standard-sw''}"
  then show "translateServiceLevelUI2API x = None"
    by (simp add: translateServiceLevelUI2API_def serviceLevelsUI_def)
qed

theorem C7_translate_round_trip_witness:
  "''standard'' \<in> {''basic'', ''standard'', ''extreme'', ''standard-sw''}
   \<and> after translateServiceLevelAPI2UI
        (after translateServiceLevelUI2API (translateServiceLevelAPI2UI ''standard''))
        = Some ''premium''
   \<and> ''premium'' \<notin> {''basic'', ''standard'', ''extreme'', ''standard-sw''}
   \<and> translateServiceLevelAPI2UI ''premium'' = None
   \<and> ''basic'' \<notin> {''standard'', ''premium'', ''extreme'', ''standard-sw''}
   \<and> translateServiceLevelUI2API ''basic'' = None"
  using C7_translate_round_trip [of "''standard''"] C7_translate_round_trip [of "''premium''"]
    C7_translate_round_trip [of "''basic''"]
  by (simp add: API2UI_values)

end
